theory Spec2Isabelle
  imports Main
begin

section \<open>JavaScript values of the request and of stored documents\<close>

text \<open>
  The handlers read loosely typed JSON. Values that are only tested for truthiness, for
  being an array or by strict equality (\<^verbatim>\<open>includes\<close>, \<^verbatim>\<open>===\<close>, \<^verbatim>\<open>switch\<close>)
  are kept as JavaScript values. Numbers are the integral ones; a \<^verbatim>\<open>Date\<close> is its time
  value in milliseconds, an integer, with no bound on its range. Object ids are natural
  numbers.
\<close>

datatype jsval =
    Undefined
  | Null
  | Bool bool
  | Num int
  | Str string
  | Arr "jsval list"
  | Obj "(string \<times> jsval) list"

text \<open>\<^verbatim>\<open>!v\<close> is \<open>\<not> truthy v\<close>.\<close>

fun truthy :: "jsval \<Rightarrow> bool" where
  "truthy Undefined = False"
| "truthy Null = False"
| "truthy (Bool b) = b"
| "truthy (Num n) = (n \<noteq> 0)"
| "truthy (Str s) = (s \<noteq> [])"
| "truthy (Arr xs) = True"
| "truthy (Obj kvs) = True"

fun isArray :: "jsval \<Rightarrow> bool" where
  "isArray (Arr xs) = True"
| "isArray v = False"

text \<open>
  \<^verbatim>\<open>arr.includes(s)\<close> for a string \<open>s\<close>: SameValueZero finds only a string element with
  the same characters; on a value that is not an array the call is never reached.
\<close>

fun includes_str :: "jsval \<Rightarrow> string \<Rightarrow> bool" where
  "includes_str (Arr xs) s = (Str s \<in> set xs)"
| "includes_str v s = False"

text \<open>
  \<^verbatim>\<open>[lit, ...].includes(v)\<close> for an array literal of strings: an array or object \<open>v\<close> is
  compared by reference and is never an element of a fresh literal.
\<close>

fun includes_lit :: "string list \<Rightarrow> jsval \<Rightarrow> bool" where
  "includes_lit lits (Str s) = (s \<in> set lits)"
| "includes_lit lits v = False"

section \<open>Responses\<close>

text \<open>
  A response is the HTTP status and the JSON body: \<open>Message m\<close> is \<^verbatim>\<open>{ message: m }\<close>
  (a document sent along with it is read off the resulting store), \<open>Errors ms\<close> is
  \<^verbatim>\<open>{ errors: [...] }\<close> of the validation chain with the messages \<open>ms\<close>,
  \<open>ExtendedBy d\<close> is the message \<^verbatim>\<open>Subscription extended by ${d} days\<close>, and
  \<open>ErrorText\<close> is \<^verbatim>\<open>{ message: error.message }\<close> for a caught exception.
\<close>

datatype body = Message string | Errors "string list" | ExtendedBy int | ErrorText

type_synonym reply = "nat \<times> body"

section \<open>models/Subscription.js\<close>

datatype plan = Basic | Standard | Premium

datatype sub_status = Active | Expired | Cancelled | Pending

record subscription =
  sid :: nat
  user :: nat
  plan :: plan
  planName :: string
  price :: int
  features :: "string list"
  status :: sub_status
  startDate :: int
  endDate :: int
  paymentId :: "string option"
  autoRenew :: bool
  createdAt :: int
  updatedAt :: int

text \<open>The virtual \<^verbatim>\<open>isActive\<close>; \<open>now\<close> is \<^verbatim>\<open>new Date()\<close>.\<close>

definition isActive :: "int \<Rightarrow> subscription \<Rightarrow> bool" where
  "isActive now s = (status s = Active \<and> endDate s > now)"

definition hasFeature :: "subscription \<Rightarrow> string \<Rightarrow> bool" where
  "hasFeature s feature = (feature \<in> set (features s))"

record plan_info =
  name :: string
  plan_price :: int
  duration :: int
  plan_features :: "string list"
  description :: string

fun getPlans :: "plan \<Rightarrow> plan_info" where
  "getPlans Basic = \<lparr>name = ''Basic Plan'', plan_price = 99, duration = 30,
     plan_features = [''Access to PDF books'', ''Basic customer support'', ''Mobile app access''],
     description = ''Perfect for casual readers''\<rparr>"
| "getPlans Standard = \<lparr>name = ''Standard Plan'', plan_price = 299, duration = 30,
     plan_features = [''Access to PDF books'', ''Priority customer support'', ''Mobile app access'',
       ''Offline reading'', ''Bookmarks & notes''],
     description = ''Great for regular readers''\<rparr>"
| "getPlans Premium = \<lparr>name = ''Premium Plan'', plan_price = 599, duration = 30,
     plan_features = [''Access to PDF books'', ''Premium customer support'', ''Mobile app access'',
       ''Offline reading'', ''Bookmarks & notes'', ''Exclusive content'',
       ''Early access to new releases''],
     description = ''Ultimate reading experience''\<rparr>"

text \<open>
  The schema's enumerations: a stored \<^verbatim>\<open>plan\<close> or \<^verbatim>\<open>status\<close> is one of the listed
  strings. \<open>plan_of\<close> and \<open>status_of\<close> read a request value as a member of the
  enumeration; a value outside it would fail the schema's validation on \<^verbatim>\<open>save\<close>.
\<close>

fun plan_of :: "jsval \<Rightarrow> plan option" where
  "plan_of (Str s) =
     (if s = ''basic'' then Some Basic
      else if s = ''standard'' then Some Standard
      else if s = ''premium'' then Some Premium
      else None)"
| "plan_of v = None"

fun status_of :: "jsval \<Rightarrow> sub_status option" where
  "status_of (Str s) =
     (if s = ''active'' then Some Active
      else if s = ''expired'' then Some Expired
      else if s = ''cancelled'' then Some Cancelled
      else if s = ''pending'' then Some Pending
      else None)"
| "status_of v = None"

text \<open>A day in milliseconds: \<^verbatim>\<open>24 * 60 * 60 * 1000\<close>.\<close>

definition day_ms :: int where
  "day_ms = 24 * 60 * 60 * 1000"

subsection \<open>The collection\<close>

text \<open>
  The collection is the list of its documents in natural order. \<^verbatim>\<open>findOne\<close> returns the
  first match; \<^verbatim>\<open>doc.save()\<close> on a loaded document runs the \<^verbatim>\<open>pre('save')\<close> hook, which
  sets \<^verbatim>\<open>updatedAt\<close>, and writes the document back under its \<^verbatim>\<open>_id\<close>. \<^verbatim>\<open>updateMany\<close>
  and \<^verbatim>\<open>deleteMany\<close> run no save hook.
\<close>

type_synonym store = "subscription list"

definition findById :: "nat \<Rightarrow> store \<Rightarrow> subscription option" where
  "findById i db = find (\<lambda>s. sid s = i) db"

fun write_back :: "subscription \<Rightarrow> store \<Rightarrow> store" where
  "write_back d [] = []"
| "write_back d (x # xs) = (if sid x = sid d then d # xs else x # write_back d xs)"

definition save :: "int \<Rightarrow> subscription \<Rightarrow> store \<Rightarrow> store" where
  "save now d db = write_back (d\<lparr>updatedAt := now\<rparr>) db"

definition updateMany :: "nat list \<Rightarrow> (subscription \<Rightarrow> subscription) \<Rightarrow> store \<Rightarrow> store" where
  "updateMany ids f db = map (\<lambda>s. if sid s \<in> set ids then f s else s) db"

definition deleteMany :: "nat list \<Rightarrow> store \<Rightarrow> store" where
  "deleteMany ids db = filter (\<lambda>s. sid s \<notin> set ids) db"

section \<open>The subscriber's routes\<close>

text \<open>
  Each handler takes the clock reading \<open>now\<close> of the request and the store, and returns
  the response with the store it leaves; the clock readings of one request are one
  instant. \<open>uid\<close> is \<^verbatim>\<open>req.user.id\<close>, set by the authentication middleware;
  \<open>new_id\<close> is the \<^verbatim>\<open>_id\<close> generated for a new document; \<open>pay\<close> is
  \<^verbatim>\<open>req.body.paymentId\<close>, a string or absent; \<open>flag\<close> is \<^verbatim>\<open>req.body.autoRenew\<close>, a
  boolean. \<open>server_error\<close> is the reply of the handlers' \<^verbatim>\<open>catch\<close>, reached only by a
  document that the schema rejects.
\<close>

definition server_error :: reply where
  "server_error = (500, Message ''Server error'')"

definition subscribe ::
  "int \<Rightarrow> nat \<Rightarrow> nat \<Rightarrow> jsval \<Rightarrow> string option \<Rightarrow> store \<Rightarrow> reply \<times> store" where
  "subscribe now new_id uid plan_in pay db =
     (if \<not> truthy plan_in \<or> \<not> includes_lit [''basic'', ''standard'', ''premium''] plan_in
      then ((400, Message ''Invalid subscription plan''), db)
      else
        (case plan_of plan_in of
           None \<Rightarrow> (server_error, db)
         | Some p \<Rightarrow>
             (case find (\<lambda>s. user s = uid \<and> status s = Active \<and> endDate s > now) db of
                Some existingSubscription \<Rightarrow>
                  ((400, Message ''You already have an active subscription''), db)
              | None \<Rightarrow>
                  (let selectedPlan = getPlans p;
                       start_date = now;
                       end_date = start_date + duration selectedPlan * 24 * 60 * 60 * 1000;
                       doc = \<lparr>sid = new_id, user = uid, plan = p, planName = name selectedPlan,
                              price = plan_price selectedPlan,
                              features = plan_features selectedPlan,
                              status = Active, startDate = start_date, endDate = end_date,
                              paymentId = pay, autoRenew = True, createdAt = now,
                              updatedAt = now\<rparr>
                   in ((201, Message ''Subscription created successfully''), db @ [doc])))))"

definition cancel :: "int \<Rightarrow> nat \<Rightarrow> store \<Rightarrow> reply \<times> store" where
  "cancel now uid db =
     (case find (\<lambda>s. user s = uid \<and> status s = Active) db of
        None \<Rightarrow> ((404, Message ''No active subscription found''), db)
      | Some s \<Rightarrow>
          ((200, Message ''Subscription cancelled successfully''),
           save now (s\<lparr>status := Cancelled, autoRenew := False\<rparr>) db))"

definition setAutoRenew :: "int \<Rightarrow> nat \<Rightarrow> bool \<Rightarrow> store \<Rightarrow> reply \<times> store" where
  "setAutoRenew now uid flag db =
     (case find (\<lambda>s. user s = uid \<and> status s = Active) db of
        None \<Rightarrow> ((404, Message ''No active subscription found''), db)
      | Some s \<Rightarrow>
          ((200, Message ''Auto-renew setting updated successfully''),
           save now (s\<lparr>autoRenew := flag\<rparr>) db))"

section \<open>The administration's subscription routes\<close>

text \<open>
  The handlers behind \<^verbatim>\<open>adminAuth\<close>. \<open>days\<close> is \<^verbatim>\<open>req.body.days\<close>: \<open>None\<close> when the
  body has no such field, \<open>Some d\<close> for a number \<open>d\<close>, so that
  \<^verbatim>\<open>!days || days <= 0\<close> is \<open>d = 0 \<or> d \<le> 0\<close>. \<open>i\<close> is \<^verbatim>\<open>req.params.id\<close>.
\<close>

definition setStatus :: "int \<Rightarrow> jsval \<Rightarrow> nat \<Rightarrow> store \<Rightarrow> reply \<times> store" where
  "setStatus now status_in i db =
     (if \<not> includes_lit [''active'', ''expired'', ''cancelled'', ''pending''] status_in
      then ((400, Message ''Invalid status''), db)
      else
        (case findById i db of
           None \<Rightarrow> ((404, Message ''Subscription not found''), db)
         | Some s \<Rightarrow>
             (case status_of status_in of
                None \<Rightarrow> (server_error, db)
              | Some st \<Rightarrow>
                  ((200, Message ''Subscription status updated successfully''),
                   save now (s\<lparr>status := st\<rparr>) db))))"

definition extendSubscription :: "int \<Rightarrow> int option \<Rightarrow> nat \<Rightarrow> store \<Rightarrow> reply \<times> store" where
  "extendSubscription now days i db =
     (case days of
        None \<Rightarrow> ((400, Message ''Invalid number of days''), db)
      | Some d \<Rightarrow>
          (if d = 0 \<or> d \<le> 0 then ((400, Message ''Invalid number of days''), db)
           else
             (case findById i db of
                None \<Rightarrow> ((404, Message ''Subscription not found''), db)
              | Some s \<Rightarrow>
                  ((200, ExtendedBy d),
                   save now (s\<lparr>endDate := endDate s + d * 24 * 60 * 60 * 1000\<rparr>) db))))"

definition deleteSubscription :: "nat \<Rightarrow> store \<Rightarrow> reply \<times> store" where
  "deleteSubscription i db =
     (case findById i db of
        None \<Rightarrow> ((404, Message ''Subscription not found''), db)
      | Some s \<Rightarrow>
          ((200, Message ''Subscription deleted successfully''),
           filter (\<lambda>x. sid x \<noteq> i) db))"

text \<open>
  \<open>ids\<close> is \<^verbatim>\<open>req.body.subscriptionIds\<close>: \<open>None\<close> when it is missing, falsy or not an
  array, else the ids listed.
\<close>

definition bulk :: "jsval \<Rightarrow> nat list option \<Rightarrow> store \<Rightarrow> reply \<times> store" where
  "bulk action ids db =
     (case ids of
        None \<Rightarrow> ((400, Message ''Invalid request data''), db)
      | Some subscriptionIds \<Rightarrow>
          (if \<not> truthy action then ((400, Message ''Invalid request data''), db)
           else if action = Str ''cancel'' then
             ((200, Message ''Bulk cancel completed successfully''),
              updateMany subscriptionIds (\<lambda>s. s\<lparr>status := Cancelled, autoRenew := False\<rparr>) db)
           else if action = Str ''activate'' then
             ((200, Message ''Bulk activate completed successfully''),
              updateMany subscriptionIds (\<lambda>s. s\<lparr>status := Active\<rparr>) db)
           else if action = Str ''delete'' then
             ((200, Message ''Bulk delete completed successfully''),
              deleteMany subscriptionIds db)
           else ((400, Message ''Invalid action''), db)))"

section \<open>middleware/adminAuth.js\<close>

text \<open>
  Modelled from the spec: the User model (\<^verbatim>\<open>models/User.js\<close>) is not among the sources.
  A principal has an identity, a role and a stored permission set; the middleware and the
  role route read and write \<^verbatim>\<open>_id\<close>, \<^verbatim>\<open>role\<close> and \<^verbatim>\<open>permissions\<close>, the last of
  which may be missing or no array in a stored document.
\<close>

record User =
  uid :: nat
  role :: string
  permissions :: jsval

text \<open>\<^verbatim>\<open>s.replace(p, '')\<close>: the first occurrence of \<open>p\<close> is removed.\<close>

fun remove_first :: "string \<Rightarrow> string \<Rightarrow> string" where
  "remove_first p [] = []"
| "remove_first p (c # cs) =
     (if take (length p) (c # cs) = p then drop (length p) (c # cs)
      else c # remove_first p cs)"

text \<open>
  \<open>verify\<close> is \<^verbatim>\<open>jwt.verify(token, process.env.JWT_SECRET)\<close> followed by the read of
  \<^verbatim>\<open>decoded.userId\<close>: \<open>None\<close> when it throws. \<open>authorization\<close> is the request's
  \<^verbatim>\<open>Authorization\<close> header. \<open>Inr u\<close> is \<^verbatim>\<open>next()\<close> with \<^verbatim>\<open>req.user = u\<close>.
\<close>

definition adminAuth ::
  "(string \<Rightarrow> nat option) \<Rightarrow> User list \<Rightarrow> string option \<Rightarrow> reply + User" where
  "adminAuth verify users authorization =
     (case map_option (remove_first ''Bearer '') authorization of
        None \<Rightarrow> Inl (401, Message ''Access denied. No token provided.'')
      | Some token \<Rightarrow>
          (if token = [] then Inl (401, Message ''Access denied. No token provided.'')
           else
             (case verify token of
                None \<Rightarrow> Inl (401, Message ''Invalid token.'')
              | Some userId \<Rightarrow>
                  (case find (\<lambda>u. uid u = userId) users of
                     None \<Rightarrow> Inl (401, Message ''Invalid token.'')
                   | Some u \<Rightarrow>
                       (if role u \<notin> set [''admin'', ''manager'', ''staff'']
                        then Inl (403, Message ''Access denied. Admin role required.'')
                        else Inr u)))))"

text \<open>
  \<open>requirePermission permission\<close> applied to \<^verbatim>\<open>req.user\<close>: \<open>None\<close> is \<^verbatim>\<open>next()\<close>,
  \<open>Some r\<close> the response sent. With no \<^verbatim>\<open>req.user\<close> the read of \<^verbatim>\<open>user.role\<close> throws.
\<close>

definition requirePermission :: "string \<Rightarrow> User option \<Rightarrow> reply option" where
  "requirePermission permission req_user =
     (case req_user of
        None \<Rightarrow> Some (500, Message ''Permission check failed.'')
      | Some u \<Rightarrow>
          (if role u = ''admin'' then None
           else if \<not> truthy (permissions u) \<or> \<not> isArray (permissions u) then
             (if role u = ''admin'' then None
              else Some (403, Message (''Access denied. Required permission: '' @ permission)))
           else if \<not> includes_str (permissions u) permission then
             Some (403, Message (''Access denied. Required permission: '' @ permission))
           else None))"

section \<open>The administration's routes, behind their middleware\<close>

definition setStatus_route ::
  "(string \<Rightarrow> nat option) \<Rightarrow> User list \<Rightarrow> string option \<Rightarrow>
   int \<Rightarrow> jsval \<Rightarrow> nat \<Rightarrow> store \<Rightarrow> reply \<times> store" where
  "setStatus_route verify users authorization now status_in i db =
     (case adminAuth verify users authorization of
        Inl r \<Rightarrow> (r, db)
      | Inr u \<Rightarrow> setStatus now status_in i db)"

definition extend_route ::
  "(string \<Rightarrow> nat option) \<Rightarrow> User list \<Rightarrow> string option \<Rightarrow>
   int \<Rightarrow> int option \<Rightarrow> nat \<Rightarrow> store \<Rightarrow> reply \<times> store" where
  "extend_route verify users authorization now days i db =
     (case adminAuth verify users authorization of
        Inl r \<Rightarrow> (r, db)
      | Inr u \<Rightarrow> extendSubscription now days i db)"

section \<open>routes/admin.js: the role route\<close>

text \<open>
  \<^verbatim>\<open>PUT /users/:id/role\<close>. \<open>role_in\<close> is \<^verbatim>\<open>req.body.role\<close>, a string or absent;
  \<open>perms_in\<close> is \<^verbatim>\<open>req.body.permissions\<close>; \<open>userId\<close> is \<^verbatim>\<open>req.params.id\<close>.
  The validation chain reports \<^verbatim>\<open>isIn\<close> on the role and, for a body that has
  permissions, \<^verbatim>\<open>isArray\<close>; it admits no absent role, so the handler's branch for one
  is never taken. \<open>accepts\<close> is the validation that \<^verbatim>\<open>user.save()\<close> runs by the
  schema of the User model, which is not among the sources; a rejected document makes
  \<^verbatim>\<open>save\<close> throw.
\<close>

definition validationResult :: "string option \<Rightarrow> jsval \<Rightarrow> string list" where
  "validationResult role_in perms_in =
     (if (case role_in of None \<Rightarrow> False
          | Some r \<Rightarrow> r \<in> set [''user'', ''admin'', ''manager'', ''staff''])
      then [] else [''Invalid role'']) @
     (if perms_in = Undefined \<or> isArray perms_in then []
      else [''Permissions must be an array''])"

definition defaultPermissions :: "string \<Rightarrow> string list" where
  "defaultPermissions r =
     (if r = ''admin'' then
        [''view_dashboard'', ''manage_books'', ''manage_orders'', ''manage_users'',
         ''view_analytics'', ''manage_settings'', ''export_data'', ''manage_permissions'']
      else if r = ''manager'' then
        [''view_dashboard'', ''manage_books'', ''manage_orders'', ''view_analytics'',
         ''export_data'']
      else if r = ''staff'' then [''view_dashboard'', ''manage_books'', ''manage_orders'']
      else [])"

fun save_user :: "User \<Rightarrow> User list \<Rightarrow> User list" where
  "save_user d [] = []"
| "save_user d (x # xs) = (if uid x = uid d then d # xs else x # save_user d xs)"

definition updateRole ::
  "(User \<Rightarrow> bool) \<Rightarrow> User \<Rightarrow> nat \<Rightarrow> string option \<Rightarrow> jsval \<Rightarrow> User list \<Rightarrow>
   reply \<times> User list" where
  "updateRole accepts req_user userId role_in perms_in users =
     (if validationResult role_in perms_in \<noteq> []
      then ((400, Errors (validationResult role_in perms_in)), users)
      else if uid req_user = userId \<and> role req_user = ''admin'' \<and> role_in \<noteq> Some ''admin''
      then ((400, Message ''Cannot demote yourself from admin role''), users)
      else
        (case find (\<lambda>u. uid u = userId) users of
           None \<Rightarrow> ((404, Message ''User not found''), users)
         | Some u \<Rightarrow>
             (case role_in of
                None \<Rightarrow> ((500, ErrorText), users)
              | Some r \<Rightarrow>
                  (let doc = u\<lparr>role := r,
                               permissions :=
                                 (if truthy perms_in then perms_in
                                  else Arr (map Str (defaultPermissions r)))\<rparr>
                   in if accepts doc
                      then ((200, Message ''User role updated successfully''),
                            save_user doc users)
                      else ((500, ErrorText), users)))))"

definition role_route ::
  "(string \<Rightarrow> nat option) \<Rightarrow> (User \<Rightarrow> bool) \<Rightarrow> User list \<Rightarrow> string option \<Rightarrow>
   nat \<Rightarrow> string option \<Rightarrow> jsval \<Rightarrow> reply \<times> User list" where
  "role_route verify accepts users authorization userId role_in perms_in =
     (case adminAuth verify users authorization of
        Inl r \<Rightarrow> (r, users)
      | Inr u \<Rightarrow>
          (case requirePermission ''manage_permissions'' (Some u) of
             Some r \<Rightarrow> (r, users)
           | None \<Rightarrow> updateRole accepts u userId role_in perms_in users))"

text \<open>
  Modelled from the spec: the schema validation of the missing User model, for the
  examples below. The role is one of the four roles and the permissions are an array of
  tags of the fixed enumeration.
\<close>

definition permission_tags :: "string list" where
  "permission_tags =
     [''view_dashboard'', ''manage_books'', ''manage_orders'', ''manage_users'',
      ''view_analytics'', ''manage_settings'', ''export_data'', ''manage_permissions'']"

definition schema_accepts :: "User \<Rightarrow> bool" where
  "schema_accepts u =
     (role u \<in> set [''user'', ''admin'', ''manager'', ''staff''] \<and>
      (case permissions u of
         Arr xs \<Rightarrow> \<forall>x \<in> set xs. x \<in> Str ` set permission_tags
       | other \<Rightarrow> False))"

section \<open>Histories of the subscription store\<close>

datatype op =
    Subscribe nat nat jsval "string option"
  | Cancel nat
  | SetAutoRenew nat bool
  | Extend "int option" nat
  | SetStatus jsval nat
  | Bulk jsval "nat list option"

fun apply_op :: "int \<Rightarrow> op \<Rightarrow> store \<Rightarrow> store" where
  "apply_op now (Subscribe new_id u plan_in pay) db = snd (subscribe now new_id u plan_in pay db)"
| "apply_op now (Cancel u) db = snd (cancel now u db)"
| "apply_op now (SetAutoRenew u flag) db = snd (setAutoRenew now u flag db)"
| "apply_op now (Extend days i) db = snd (extendSubscription now days i db)"
| "apply_op now (SetStatus status_in i) db = snd (setStatus now status_in i db)"
| "apply_op now (Bulk action ids) db = snd (bulk action ids db)"










section \<open>Example documents, users and histories\<close>

definition sub1 :: subscription where
  "sub1 = \<lparr>sid = 1, user = 7, plan = Basic, planName = ''Basic Plan'', price = 99,
        features = [], status = Active, startDate = 0, endDate = 30, paymentId = None,
        autoRenew = True, createdAt = 0, updatedAt = 0\<rparr>"


definition month :: int where
  "month = 31 * day_ms"

definition subscribed_once :: store where
  "subscribed_once = apply_op 0 (Subscribe 1 7 (Str ''basic'') None) []"

definition resubscribed :: store where
  "resubscribed = apply_op month (Subscribe 2 7 (Str ''basic'') None) subscribed_once"





definition example_verify :: "string \<Rightarrow> nat option" where
  "example_verify t =
     (if t = ''a'' then Some 1 else if t = ''m'' then Some 2
      else if t = ''c'' then Some 3 else None)"

definition example_users :: "User list" where
  "example_users =
     [\<lparr>uid = 1, role = ''admin'', permissions = Undefined\<rparr>,
      \<lparr>uid = 2, role = ''manager'',
       permissions = Arr (map Str (defaultPermissions ''manager''))\<rparr>,
      \<lparr>uid = 3, role = ''user'', permissions = Arr []\<rparr>]"

text \<open>
  The users after the admin has given the manager the permission
  \<^verbatim>\<open>manage_permissions\<close> through the role route.
\<close>

definition granted :: "User list" where
  "granted =
     snd (role_route example_verify schema_accepts example_users (Some ''Bearer a'') 2
            (Some ''manager'') (Arr [Str ''view_dashboard'', Str ''manage_permissions'']))"

section \<open>Facts about lists and the collection\<close>

lemma find_in_set: "find P xs = Some x \<Longrightarrow> x \<in> set xs \<and> P x"
  by (induction xs) (auto split: if_splits)

lemma find_None_set: "find P xs = None \<longleftrightarrow> (\<forall>x \<in> set xs. \<not> P x)"
  by (induction xs) auto



lemma distinct_sid_eq:
  "distinct (map sid db) \<Longrightarrow> x \<in> set db \<Longrightarrow> y \<in> set db \<Longrightarrow> sid x = sid y \<Longrightarrow> x = y"
  by (meson distinct_map inj_onD)

lemma write_back_map:
  "distinct (map sid db) \<Longrightarrow> s \<in> set db \<Longrightarrow> sid d = sid s \<Longrightarrow>
   write_back d db = map (\<lambda>x. if sid x = sid s then d else x) db"
proof (induction db)
  case Nil
  then show ?case by simp
next
  case (Cons x xs)
  show ?case
  proof (cases "sid x = sid s")
    case True
    with Cons.prems have "sid s \<notin> sid ` set xs" by simp
    then have "\<forall>y \<in> set xs. sid y \<noteq> sid s" by (metis imageI)
    then have "map (\<lambda>x. if sid x = sid s then d else x) xs = xs"
      by (simp add: map_idI)
    with True Cons.prems show ?thesis by simp
  next
    case False
    with Cons show ?thesis by auto
  qed
qed



lemma save_map:
  assumes "distinct (map sid db)" "s \<in> set db" "sid d = sid s"
  shows "save now d db = map (\<lambda>x. if sid x = sid s then d\<lparr>updatedAt := now\<rparr> else x) db"
  using write_back_map [OF assms(1,2), of "d\<lparr>updatedAt := now\<rparr>"] assms(3)
  by (simp add: save_def)




section \<open>The permission check\<close>

lemma requirePermission_eq:
  "requirePermission t (Some p) =
     (if role p = ''admin'' \<or> (\<exists>xs. permissions p = Arr xs \<and> Str t \<in> set xs) then None
      else Some (403, Message (''Access denied. Required permission: '' @ t)))"
  by (cases "permissions p") (auto simp: requirePermission_def)

text \<open>
  C1. For every principal \<open>p\<close> and permission tag \<open>t\<close>, the permission check lets an
  admin through whatever the stored permissions are (also when they are missing or
  null); it lets a principal who is not an admin through when the stored permissions are
  an array that holds \<open>t\<close>, and answers 403 otherwise, in particular when the stored
  permissions are missing or not an array.
\<close>

theorem requirePermission_decision:
  "(role p = ''admin'' \<longrightarrow> requirePermission t (Some p) = None) \<and>
   (role p \<noteq> ''admin'' \<and> (\<exists>xs. permissions p = Arr xs \<and> Str t \<in> set xs) \<longrightarrow>
      requirePermission t (Some p) = None) \<and>
   (role p \<noteq> ''admin'' \<and> \<not> (\<exists>xs. permissions p = Arr xs \<and> Str t \<in> set xs) \<longrightarrow>
      requirePermission t (Some p) =
        Some (403, Message (''Access denied. Required permission: '' @ t)))"
  by (simp add: requirePermission_eq)

theorem requirePermission_decision_witness:
  "requirePermission ''manage_books''
     (Some \<lparr>uid = 1, role = ''admin'', permissions = Undefined\<rparr>) = None \<and>
   requirePermission ''manage_books''
     (Some \<lparr>uid = 2, role = ''staff'',
            permissions = Arr [Str ''view_dashboard'', Str ''manage_books'']\<rparr>) = None \<and>
   requirePermission ''manage_books''
     (Some \<lparr>uid = 2, role = ''staff'', permissions = Null\<rparr>) =
     Some (403, Message ''Access denied. Required permission: manage_books'') \<and>
   requirePermission ''export_data''
     (Some \<lparr>uid = 2, role = ''staff'',
            permissions = Arr [Str ''view_dashboard'', Str ''manage_books'']\<rparr>) =
     Some (403, Message ''Access denied. Required permission: export_data'')"
  using
    requirePermission_decision
      [of "\<lparr>uid = 1, role = ''admin'', permissions = Undefined\<rparr>" "''manage_books''"]
    requirePermission_decision
      [of "\<lparr>uid = 2, role = ''staff'',
            permissions = Arr [Str ''view_dashboard'', Str ''manage_books'']\<rparr>"
          "''manage_books''"]
    requirePermission_decision
      [of "\<lparr>uid = 2, role = ''staff'', permissions = Null\<rparr>" "''manage_books''"]
    requirePermission_decision
      [of "\<lparr>uid = 2, role = ''staff'',
            permissions = Arr [Str ''view_dashboard'', Str ''manage_books'']\<rparr>"
          "''export_data''"]
  by simp

section \<open>Effective activity\<close>

text \<open>
  C9. A subscription is effectively active exactly when its stored status is active and
  its end date is later than now; a record stored as active whose end date has passed is
  not effectively active.
\<close>

theorem isActive_iff:
  "(isActive now s \<longleftrightarrow> status s = Active \<and> now < endDate s) \<and>
   (status s = Active \<and> endDate s < now \<longrightarrow> \<not> isActive now s)"
  by (auto simp: isActive_def)

theorem isActive_iff_witness:
  "\<not> isActive 31
       \<lparr>sid = 1, user = 7, plan = Standard, planName = ''Standard Plan'', price = 299,
        features = [], status = Active, startDate = 0, endDate = 30, paymentId = None,
        autoRenew = True, createdAt = 0, updatedAt = 0\<rparr> \<and>
   isActive 29
       \<lparr>sid = 1, user = 7, plan = Standard, planName = ''Standard Plan'', price = 299,
        features = [], status = Active, startDate = 0, endDate = 30, paymentId = None,
        autoRenew = True, createdAt = 0, updatedAt = 0\<rparr>"
  using
    isActive_iff [of 31
       "\<lparr>sid = 1, user = 7, plan = Standard, planName = ''Standard Plan'', price = 299,
        features = [], status = Active, startDate = 0, endDate = 30, paymentId = None,
        autoRenew = True, createdAt = 0, updatedAt = 0\<rparr>"]
    isActive_iff [of 29
       "\<lparr>sid = 1, user = 7, plan = Standard, planName = ''Standard Plan'', price = 299,
        features = [], status = Active, startDate = 0, endDate = 30, paymentId = None,
        autoRenew = True, createdAt = 0, updatedAt = 0\<rparr>"]
  by simp

section \<open>Malformed input\<close>

text \<open>
  C10. The handlers answer 400 for malformed input exactly: \<^verbatim>\<open>subscribe\<close> answers
  400 "Invalid subscription plan" iff the requested plan is none of basic, standard and
  premium; \<^verbatim>\<open>extend\<close> answers 400 "Invalid number of days" iff the days are at most
  zero, and also when the body has no days; the status override answers
  400 "Invalid status" iff the new status is none of pending, active, cancelled and
  expired.
\<close>

theorem invalid_argument_exactly:
  "(fst (subscribe now new_id u plan_in pay db) = (400, Message ''Invalid subscription plan'')
      \<longleftrightarrow> plan_in \<notin> {Str ''basic'', Str ''standard'', Str ''premium''}) \<and>
   (fst (extendSubscription now (Some d) i db) = (400, Message ''Invalid number of days'')
      \<longleftrightarrow> d \<le> 0) \<and>
   fst (extendSubscription now None i db) = (400, Message ''Invalid number of days'') \<and>
   (fst (setStatus now status_in i db) = (400, Message ''Invalid status'')
      \<longleftrightarrow> status_in \<notin> {Str ''pending'', Str ''active'', Str ''cancelled'', Str ''expired''})"
proof (intro conjI)
  show "fst (subscribe now new_id u plan_in pay db) = (400, Message ''Invalid subscription plan'')
      \<longleftrightarrow> plan_in \<notin> {Str ''basic'', Str ''standard'', Str ''premium''}"
    by (cases plan_in) (auto simp: subscribe_def server_error_def Let_def split: option.splits)
  show "fst (extendSubscription now (Some d) i db) = (400, Message ''Invalid number of days'')
      \<longleftrightarrow> d \<le> 0"
    by (auto simp: extendSubscription_def split: option.splits)
  show "fst (extendSubscription now None i db) = (400, Message ''Invalid number of days'')"
    by (simp add: extendSubscription_def)
  show "fst (setStatus now status_in i db) = (400, Message ''Invalid status'')
      \<longleftrightarrow> status_in \<notin> {Str ''pending'', Str ''active'', Str ''cancelled'', Str ''expired''}"
    by (cases status_in) (auto simp: setStatus_def server_error_def split: option.splits)
qed

theorem invalid_argument_exactly_witness:
  "fst (extendSubscription 5 (Some 0) 1 []) = (400, Message ''Invalid number of days'') \<and>
   fst (extendSubscription 5 (Some (- 1)) 1 []) = (400, Message ''Invalid number of days'') \<and>
   fst (extendSubscription 5 (Some 10) 1 []) \<noteq> (400, Message ''Invalid number of days'') \<and>
   fst (subscribe 5 1 7 (Str ''gold'') None []) = (400, Message ''Invalid subscription plan'') \<and>
   fst (subscribe 5 1 7 (Str ''basic'') None []) \<noteq> (400, Message ''Invalid subscription plan'') \<and>
   fst (setStatus 5 (Str ''paused'') 1 []) = (400, Message ''Invalid status'') \<and>
   fst (setStatus 5 (Str ''expired'') 1 []) \<noteq> (400, Message ''Invalid status'')"
  using
    invalid_argument_exactly [of 5 1 7 "Str ''gold''" None "[]" 0 1 "Str ''paused''"]
    invalid_argument_exactly [of 5 1 7 "Str ''basic''" None "[]" "- 1" 1 "Str ''expired''"]
    invalid_argument_exactly [of 5 1 7 "Str ''basic''" None "[]" 10 1 "Str ''expired''"]
  by simp


section \<open>Subscribing\<close>




section \<open>Cancelling\<close>

lemma cancel_found:
  assumes d: "distinct (map sid db)"
    and f: "find (\<lambda>s. user s = u \<and> status s = Active) db = Some s"
  shows "cancel now u db =
    ((200, Message ''Subscription cancelled successfully''),
     map (\<lambda>x. if sid x = sid s
               then x\<lparr>status := Cancelled, autoRenew := False, updatedAt := now\<rparr>
               else x) db)"
proof -
  from f have m: "s \<in> set db" by (simp add: find_in_set)
  have "save now (s\<lparr>status := Cancelled, autoRenew := False\<rparr>) db =
      map (\<lambda>x. if sid x = sid s
                then s\<lparr>status := Cancelled, autoRenew := False, updatedAt := now\<rparr>
                else x) db"
    using save_map [OF d m, of "s\<lparr>status := Cancelled, autoRenew := False\<rparr>" now] by simp
  also have "\<dots> = map (\<lambda>x. if sid x = sid s
               then x\<lparr>status := Cancelled, autoRenew := False, updatedAt := now\<rparr>
               else x) db"
  proof (rule map_cong [OF refl])
    fix x assume "x \<in> set db"
    with d m have "sid x = sid s \<Longrightarrow> x = s" by (blast intro: distinct_sid_eq)
    then show "(if sid x = sid s
                then s\<lparr>status := Cancelled, autoRenew := False, updatedAt := now\<rparr>
                else x) =
               (if sid x = sid s
                then x\<lparr>status := Cancelled, autoRenew := False, updatedAt := now\<rparr>
                else x)" by auto
  qed
  finally show ?thesis using f by (simp add: cancel_def)
qed

lemma cancel_none:
  "\<forall>s \<in> set db. \<not> (user s = u \<and> status s = Active) \<Longrightarrow>
   cancel now u db = ((404, Message ''No active subscription found''), db)"
  using find_None_set [of "\<lambda>s. user s = u \<and> status s = Active" db]
  by (simp add: cancel_def)

lemma filter_le1_first:
  assumes a: "length (filter P db) \<le> 1" and f: "find P db = Some s"
    and x: "x \<in> set db" "P x"
  shows "x = s"
proof -
  from f have "s \<in> set (filter P db)" by (simp add: find_in_set)
  moreover from x have "x \<in> set (filter P db)" by simp
  ultimately show "x = s" using a
    by (cases "filter P db") (auto split: if_splits)
qed

text \<open>
  C7, as amended. In a store whose ids are distinct: when the principal has a
  subscription stored as active, \<^verbatim>\<open>cancel\<close> answers 200 and one save sets the status of
  one such document to cancelled and its \<^verbatim>\<open>autoRenew\<close> to false (the save hook stamps
  \<^verbatim>\<open>updatedAt\<close>), every other document staying as it is; when the principal has none, it
  answers 404 and changes nothing. A second cancel right after the first answers 404 and
  changes nothing when the principal had at most one subscription stored as active.
\<close>

theorem cancel_effect:
  assumes d: "distinct (map sid db)"
  shows
  "((\<exists>s \<in> set db. user s = u \<and> status s = Active) \<longrightarrow>
      (\<exists>s \<in> set db. user s = u \<and> status s = Active \<and>
         cancel now u db =
           ((200, Message ''Subscription cancelled successfully''),
            map (\<lambda>x. if sid x = sid s
                      then x\<lparr>status := Cancelled, autoRenew := False, updatedAt := now\<rparr>
                      else x) db))) \<and>
   (\<not> (\<exists>s \<in> set db. user s = u \<and> status s = Active) \<longrightarrow>
      cancel now u db = ((404, Message ''No active subscription found''), db)) \<and>
   (length (filter (\<lambda>s. user s = u \<and> status s = Active) db) \<le> 1 \<longrightarrow>
      cancel later u (snd (cancel now u db)) =
        ((404, Message ''No active subscription found''), snd (cancel now u db)))"
proof (intro conjI impI)
  assume "\<exists>s \<in> set db. user s = u \<and> status s = Active"
  then obtain s where f: "find (\<lambda>s. user s = u \<and> status s = Active) db = Some s"
    using find_None_set [of "\<lambda>s. user s = u \<and> status s = Active" db] by fastforce
  from find_in_set [OF f] cancel_found [OF d f, of now]
  show "\<exists>s \<in> set db. user s = u \<and> status s = Active \<and>
         cancel now u db =
           ((200, Message ''Subscription cancelled successfully''),
            map (\<lambda>x. if sid x = sid s
                      then x\<lparr>status := Cancelled, autoRenew := False, updatedAt := now\<rparr>
                      else x) db)"
    by blast
next
  assume "\<not> (\<exists>s \<in> set db. user s = u \<and> status s = Active)"
  then show "cancel now u db = ((404, Message ''No active subscription found''), db)"
    by (simp add: cancel_none)
next
  assume le: "length (filter (\<lambda>s. user s = u \<and> status s = Active) db) \<le> 1"
  show "cancel later u (snd (cancel now u db)) =
        ((404, Message ''No active subscription found''), snd (cancel now u db))"
  proof (cases "find (\<lambda>s. user s = u \<and> status s = Active) db")
    case None
    then have n: "\<forall>s \<in> set db. \<not> (user s = u \<and> status s = Active)"
      by (simp add: find_None_set)
    then show ?thesis by (simp add: cancel_none)
  next
    case (Some s)
    have "\<forall>y \<in> set (map (\<lambda>x. if sid x = sid s
               then x\<lparr>status := Cancelled, autoRenew := False, updatedAt := now\<rparr>
               else x) db). \<not> (user y = u \<and> status y = Active)"
    proof
      fix y
      assume "y \<in> set (map (\<lambda>x. if sid x = sid s
               then x\<lparr>status := Cancelled, autoRenew := False, updatedAt := now\<rparr>
               else x) db)"
      then obtain x where x: "x \<in> set db"
        and y: "y = (if sid x = sid s
               then x\<lparr>status := Cancelled, autoRenew := False, updatedAt := now\<rparr>
               else x)" by auto
      show "\<not> (user y = u \<and> status y = Active)"
      proof (cases "sid x = sid s")
        case True
        with y show ?thesis by simp
      next
        case False
        then have "x \<noteq> s" by auto
        with filter_le1_first [OF le Some x] have "\<not> (user x = u \<and> status x = Active)"
          by blast
        with False y show ?thesis by simp
      qed
    qed
    then show ?thesis
      using cancel_found [OF d Some, of now] by (simp add: cancel_none)
  qed
qed

theorem cancel_effect_witness:
  "distinct (map sid [sub1]) \<and>
   cancel 5 7 [sub1] = ((200, Message ''Subscription cancelled successfully''),
      [sub1\<lparr>status := Cancelled, autoRenew := False, updatedAt := 5\<rparr>]) \<and>
   cancel 5 8 [sub1] = ((404, Message ''No active subscription found''), [sub1]) \<and>
   cancel 6 7 (snd (cancel 5 7 [sub1])) =
     ((404, Message ''No active subscription found''), snd (cancel 5 7 [sub1]))"
proof -
  have d: "distinct (map sid [sub1])" by simp
  have a: "cancel 5 7 [sub1] = ((200, Message ''Subscription cancelled successfully''),
      [sub1\<lparr>status := Cancelled, autoRenew := False, updatedAt := 5\<rparr>])"
    using cancel_effect [OF d, of 7 5 6] by (simp add: sub1_def)
  have b: "cancel 5 8 [sub1] = ((404, Message ''No active subscription found''), [sub1])"
    using cancel_effect [OF d, of 8 5 6] by (simp add: sub1_def)
  have c: "cancel 6 7 (snd (cancel 5 7 [sub1])) =
     ((404, Message ''No active subscription found''), snd (cancel 5 7 [sub1]))"
    using cancel_effect [OF d, of 7 5 6] by (auto simp: sub1_def)
  from d a b c show ?thesis by blast
qed

text \<open>
  C7 as stated fails on the second consecutive call. Principal 7 subscribes at time 0
  and, the first subscription having run out but still being stored as active, again a
  month later; the first cancel then answers 200 and so does the second, which finds the
  other document.
\<close>

theorem cancel_twice_counterexample:
  "fst (cancel (month + 1) 7 resubscribed) =
     (200, Message ''Subscription cancelled successfully'') \<and>
   fst (cancel (month + 2) 7 (snd (cancel (month + 1) 7 resubscribed))) =
     (200, Message ''Subscription cancelled successfully'') \<and>
   fst (cancel (month + 2) 7 (snd (cancel (month + 1) 7 resubscribed))) \<noteq>
     (404, Message ''No active subscription found'')"
  by (simp add: resubscribed_def subscribed_once_def month_def day_ms_def cancel_def
      subscribe_def save_def Let_def)

section \<open>Extending\<close>




section \<open>The end date rule along histories\<close>










section \<open>One effectively active subscription along histories\<close>



















section \<open>The administration's gate\<close>

lemma adminAuth_user:
  assumes "remove_first ''Bearer '' h \<noteq> []"
    and "verify (remove_first ''Bearer '' h) = Some k"
    and "find (\<lambda>u. uid u = k) users = Some p"
  shows "adminAuth verify users (Some h) =
    (if role p \<in> {''admin'', ''manager'', ''staff''} then Inr p
     else Inl (403, Message ''Access denied. Admin role required.''))"
  using assms by (simp add: adminAuth_def)

text \<open>
  C4, as amended. For every authenticated principal (the token of the request verifies
  and names a stored user) whose role is none of admin, manager and staff, the routes
  that extend a subscription and that override its status answer 403 and leave the
  store as it is.
\<close>

theorem admin_routes_forbidden:
  assumes "remove_first ''Bearer '' h \<noteq> []"
    and "verify (remove_first ''Bearer '' h) = Some k"
    and "find (\<lambda>u. uid u = k) users = Some p"
    and "role p \<notin> {''admin'', ''manager'', ''staff''}"
  shows "extend_route verify users (Some h) now days i db =
           ((403, Message ''Access denied. Admin role required.''), db) \<and>
         setStatus_route verify users (Some h) now status_in i db =
           ((403, Message ''Access denied. Admin role required.''), db)"
  using adminAuth_user [of h verify, OF assms(1-3)] assms(4)
  by (simp add: extend_route_def setStatus_route_def)

theorem admin_routes_forbidden_witness:
  "remove_first ''Bearer '' ''Bearer c'' \<noteq> [] \<and>
   example_verify (remove_first ''Bearer '' ''Bearer c'') = Some 3 \<and>
   find (\<lambda>u. uid u = 3) example_users =
     Some \<lparr>uid = 3, role = ''user'', permissions = Arr []\<rparr> \<and>
   role \<lparr>uid = 3, role = ''user'', permissions = Arr []\<rparr>
     \<notin> {''admin'', ''manager'', ''staff''} \<and>
   extend_route example_verify example_users (Some ''Bearer c'') 50 (Some 10) 1 [sub1] =
     ((403, Message ''Access denied. Admin role required.''), [sub1]) \<and>
   setStatus_route example_verify example_users (Some ''Bearer c'') 50 (Str ''expired'') 1
     [sub1] = ((403, Message ''Access denied. Admin role required.''), [sub1])"
proof -
  have h: "remove_first ''Bearer '' ''Bearer c'' \<noteq> []"
    "example_verify (remove_first ''Bearer '' ''Bearer c'') = Some 3"
    "find (\<lambda>u. uid u = 3) example_users =
       Some \<lparr>uid = 3, role = ''user'', permissions = Arr []\<rparr>"
    "role \<lparr>uid = 3, role = ''user'', permissions = Arr []\<rparr>
       \<notin> {''admin'', ''manager'', ''staff''}"
    by (simp_all add: example_verify_def example_users_def)
  from admin_routes_forbidden [of "''Bearer c''" example_verify, OF h] h
  show ?thesis by blast
qed

text \<open>
  C4 as stated fails: the gate admits the roles manager and staff. The manager of the
  example, who is no admin, extends the subscription and overrides its status.
\<close>

theorem admin_routes_counterexample:
  "adminAuth example_verify example_users (Some ''Bearer m'') =
     Inr \<lparr>uid = 2, role = ''manager'',
          permissions = Arr (map Str (defaultPermissions ''manager''))\<rparr> \<and>
   fst (extend_route example_verify example_users (Some ''Bearer m'') 50 (Some 10) 1
          subscribed_once) = (200, ExtendedBy 10) \<and>
   map endDate subscribed_once = [2592000000] \<and>
   map endDate (snd (extend_route example_verify example_users (Some ''Bearer m'') 50
          (Some 10) 1 subscribed_once)) = [3456000000] \<and>
   fst (setStatus_route example_verify example_users (Some ''Bearer m'') 50
          (Str ''expired'') 1 subscribed_once) =
     (200, Message ''Subscription status updated successfully'') \<and>
   map status (snd (setStatus_route example_verify example_users (Some ''Bearer m'') 50
          (Str ''expired'') 1 subscribed_once)) = [Expired]"
  by (simp add: extend_route_def setStatus_route_def adminAuth_def example_verify_def
      example_users_def defaultPermissions_def extendSubscription_def setStatus_def
      findById_def save_def subscribed_once_def subscribe_def Let_def)

section \<open>Changing a role\<close>

lemma updateRole_not_403:
  "fst (fst (updateRole accepts p i role_in perms_in users)) \<noteq> 403"
  by (simp add: updateRole_def Let_def split: option.splits)

lemma granted_eq:
  "granted =
     [\<lparr>uid = 1, role = ''admin'', permissions = Undefined\<rparr>,
      \<lparr>uid = 2, role = ''manager'',
       permissions = Arr [Str ''view_dashboard'', Str ''manage_permissions'']\<rparr>,
      \<lparr>uid = 3, role = ''user'', permissions = Arr []\<rparr>]"
  by (simp add: granted_def role_route_def adminAuth_def requirePermission_def
      updateRole_def validationResult_def example_verify_def example_users_def
      schema_accepts_def permission_tags_def defaultPermissions_def Let_def)

text \<open>
  C5, as amended. For every authenticated actor whose role is not admin, the role route
  answers 403 and leaves the users as they are, whoever the target is, unless the
  actor's role is manager or staff and the actor's stored permissions are an array that
  holds \<^verbatim>\<open>manage_permissions\<close>; such an actor passes the gate, and the request is
  handled as an admin's is.
\<close>

theorem role_change_gate:
  assumes "remove_first ''Bearer '' h \<noteq> []"
    and "verify (remove_first ''Bearer '' h) = Some k"
    and "find (\<lambda>u. uid u = k) users = Some p"
    and "role p \<noteq> ''admin''"
  shows
  "(\<not> (role p \<in> {''manager'', ''staff''} \<and>
        (\<exists>xs. permissions p = Arr xs \<and> Str ''manage_permissions'' \<in> set xs)) \<longrightarrow>
      fst (fst (role_route verify accepts users (Some h) userId role_in perms_in)) = 403 \<and>
      snd (role_route verify accepts users (Some h) userId role_in perms_in) = users) \<and>
   (role p \<in> {''manager'', ''staff''} \<and>
      (\<exists>xs. permissions p = Arr xs \<and> Str ''manage_permissions'' \<in> set xs) \<longrightarrow>
      fst (fst (role_route verify accepts users (Some h) userId role_in perms_in)) \<noteq> 403 \<and>
      role_route verify accepts users (Some h) userId role_in perms_in =
        updateRole accepts p userId role_in perms_in users)"
proof (intro conjI impI)
  assume n: "\<not> (role p \<in> {''manager'', ''staff''} \<and>
        (\<exists>xs. permissions p = Arr xs \<and> Str ''manage_permissions'' \<in> set xs))"
  show "fst (fst (role_route verify accepts users (Some h) userId role_in perms_in)) = 403"
    and "snd (role_route verify accepts users (Some h) userId role_in perms_in) = users"
    using adminAuth_user [of h verify, OF assms(1-3)] assms(4) n
      requirePermission_eq [of "''manage_permissions''" p]
    by (auto simp: role_route_def)
next
  assume y: "role p \<in> {''manager'', ''staff''} \<and>
      (\<exists>xs. permissions p = Arr xs \<and> Str ''manage_permissions'' \<in> set xs)"
  then have g: "requirePermission ''manage_permissions'' (Some p) = None"
    by (simp add: requirePermission_eq)
  from y have a: "adminAuth verify users (Some h) = Inr p"
    using adminAuth_user [of h verify, OF assms(1-3)] by auto
  from a g show e: "role_route verify accepts users (Some h) userId role_in perms_in =
        updateRole accepts p userId role_in perms_in users"
    by (simp add: role_route_def)
  then show "fst (fst (role_route verify accepts users (Some h) userId role_in perms_in))
      \<noteq> 403"
    by (simp add: updateRole_not_403)
qed

theorem role_change_gate_witness:
  "remove_first ''Bearer '' ''Bearer m'' \<noteq> [] \<and>
   example_verify (remove_first ''Bearer '' ''Bearer m'') = Some 2 \<and>
   find (\<lambda>u. uid u = 2) example_users =
     Some \<lparr>uid = 2, role = ''manager'',
           permissions = Arr (map Str (defaultPermissions ''manager''))\<rparr> \<and>
   fst (fst (role_route example_verify schema_accepts example_users (Some ''Bearer m'') 3
      (Some ''admin'') Undefined)) = 403 \<and>
   snd (role_route example_verify schema_accepts example_users (Some ''Bearer m'') 3
      (Some ''admin'') Undefined) = example_users \<and>
   find (\<lambda>u. uid u = 2) granted =
     Some \<lparr>uid = 2, role = ''manager'',
           permissions = Arr [Str ''view_dashboard'', Str ''manage_permissions'']\<rparr> \<and>
   fst (fst (role_route example_verify schema_accepts granted (Some ''Bearer m'') 3
      (Some ''admin'') Undefined)) \<noteq> 403"
proof -
  have h: "remove_first ''Bearer '' ''Bearer m'' \<noteq> []"
    "example_verify (remove_first ''Bearer '' ''Bearer m'') = Some 2"
    "find (\<lambda>u. uid u = 2) example_users =
     Some \<lparr>uid = 2, role = ''manager'',
           permissions = Arr (map Str (defaultPermissions ''manager''))\<rparr>"
    "role \<lparr>uid = 2, role = ''manager'',
           permissions = Arr (map Str (defaultPermissions ''manager''))\<rparr> \<noteq> ''admin''"
    by (simp_all add: example_verify_def example_users_def)
  have g: "find (\<lambda>u. uid u = 2) granted =
     Some \<lparr>uid = 2, role = ''manager'',
           permissions = Arr [Str ''view_dashboard'', Str ''manage_permissions'']\<rparr>"
    "role \<lparr>uid = 2, role = ''manager'',
           permissions = Arr [Str ''view_dashboard'', Str ''manage_permissions'']\<rparr>
       \<noteq> ''admin''"
    by (simp_all add: granted_eq)
  have a: "fst (fst (role_route example_verify schema_accepts example_users
      (Some ''Bearer m'') 3 (Some ''admin'') Undefined)) = 403 \<and>
     snd (role_route example_verify schema_accepts example_users (Some ''Bearer m'') 3
      (Some ''admin'') Undefined) = example_users"
    using role_change_gate [of "''Bearer m''" example_verify, OF h,
        of schema_accepts 3 "Some ''admin''" Undefined]
    by (simp add: defaultPermissions_def)
  have b: "fst (fst (role_route example_verify schema_accepts granted (Some ''Bearer m'') 3
      (Some ''admin'') Undefined)) \<noteq> 403"
    using role_change_gate [of "''Bearer m''" example_verify, OF h(1,2) g,
        of schema_accepts 3 "Some ''admin''" Undefined]
    by auto
  from h g a b show ?thesis by blast
qed

text \<open>
  C5 as stated fails: the gate of the role route is the permission
  \<^verbatim>\<open>manage_permissions\<close>, not the role admin. Once the admin has given the manager
  that permission, the manager, who is no admin, makes the customer 3 an admin.
\<close>

theorem role_change_counterexample:
  "adminAuth example_verify granted (Some ''Bearer m'') =
     Inr \<lparr>uid = 2, role = ''manager'',
          permissions = Arr [Str ''view_dashboard'', Str ''manage_permissions'']\<rparr> \<and>
   role_route example_verify schema_accepts granted (Some ''Bearer m'') 3 (Some ''admin'')
     Undefined =
     ((200, Message ''User role updated successfully''),
      [\<lparr>uid = 1, role = ''admin'', permissions = Undefined\<rparr>,
       \<lparr>uid = 2, role = ''manager'',
        permissions = Arr [Str ''view_dashboard'', Str ''manage_permissions'']\<rparr>,
       \<lparr>uid = 3, role = ''admin'',
        permissions = Arr (map Str (defaultPermissions ''admin''))\<rparr>])"
  unfolding granted_eq
  by (simp add: role_route_def adminAuth_def requirePermission_def updateRole_def
      validationResult_def example_verify_def schema_accepts_def permission_tags_def
      defaultPermissions_def Let_def)

section \<open>The self-demotion guard\<close>





end
